theory Spec2Isabelle
  imports Main
begin

section \<open>Python values used by the notebook\<close>

text \<open>
  The repository is one notebook, \<^verbatim>\<open>download_satellite_data.ipynb\<close>. Its code cells
  are straight-line Python over integers, strings and lists of strings. Integers are
  Python's unbounded \<open>int\<close>, strings are \<open>string\<close>, and an exception is a value of
  \<open>error\<close>: a cell that can raise returns \<open>error + 'a\<close>, with \<open>Inl\<close> the exception.
  The decimal rendering \<open>str\<close> is the mathematical one; interpreter resource limits
  are outside the model.
\<close>

datatype error = ValueError | IndexError | KeyError | OverflowError | ConnectionError

subsection \<open>\<^verbatim>\<open>str(n)\<close> on integers\<close>

definition digit_char :: "nat \<Rightarrow> char" where
  "digit_char d = ''0123456789'' ! d"

fun str_nat :: "nat \<Rightarrow> string" where
  "str_nat n = (if n < 10 then [digit_char n] else str_nat (n div 10) @ [digit_char (n mod 10)])"

declare str_nat.simps [simp del]

definition str :: "int \<Rightarrow> string" where
  "str v = (if v < 0 then CHR ''-'' # str_nat (nat (- v)) else str_nat (nat v))"

subsection \<open>\<^verbatim>\<open>s.zfill(width)\<close>\<close>

text \<open>
  \<^verbatim>\<open>str.zfill\<close> returns the string itself when it is already at least \<open>width\<close> long;
  otherwise it fills with \<open>0\<close> on the left, after a leading sign when there is one.
\<close>

definition zfill :: "string \<Rightarrow> int \<Rightarrow> string" where
  "zfill s width =
     (if width \<le> int (length s) then s
      else (let fill = replicate (nat (width - int (length s))) CHR ''0''
            in case s of
                 [] \<Rightarrow> fill
               | c # cs \<Rightarrow> if c = CHR ''+'' \<or> c = CHR ''-'' then c # fill @ cs else fill @ s))"

section \<open>Key Builder: the storage paths\<close>

text \<open>
  \<^verbatim>\<open>data_path = bucket + '/' + product + '/' + str(year) + '/' + str(julian).zfill(3)
              + '/' + str(hour).zfill(2)\<close>
\<close>

definition data_path :: "string \<Rightarrow> string \<Rightarrow> int \<Rightarrow> int \<Rightarrow> int \<Rightarrow> string" where
  "data_path bucket product year julian hour =
     bucket @ ''/'' @ product @ ''/'' @ str year @ ''/'' @ zfill (str julian) 3
       @ ''/'' @ zfill (str hour) 2"

text \<open>
  \<^verbatim>\<open>files_path = bucket + '/' + satellite + '/' + sensor + '/' + product + '/' + str(year)
               + '/' + str(month).zfill(2) + '/' + str(day).zfill(2)\<close>
\<close>

definition files_path ::
  "string \<Rightarrow> string \<Rightarrow> string \<Rightarrow> string \<Rightarrow> int \<Rightarrow> int \<Rightarrow> int \<Rightarrow> string" where
  "files_path bucket satellite sensor product year month day =
     bucket @ ''/'' @ satellite @ ''/'' @ sensor @ ''/'' @ product @ ''/'' @ str year
       @ ''/'' @ zfill (str month) 2 @ ''/'' @ zfill (str day) 2"

section \<open>Filename Field Extractor: splitting, indexing, slicing\<close>

text \<open>
  \<^verbatim>\<open>s.split(sep)\<close> with a one-character separator: one token more than there are
  separators, empty tokens kept, so the result is never empty.
\<close>

fun str_split :: "char \<Rightarrow> string \<Rightarrow> string list" where
  "str_split sep [] = [[]]"
| "str_split sep (c # cs) =
     (if c = sep then [] # str_split sep cs
      else (case str_split sep cs of [] \<Rightarrow> [[c]] | t # ts \<Rightarrow> (c # t) # ts))"

text \<open>
  \<^verbatim>\<open>xs[i]\<close>: a negative index counts from the end, and an index outside the list
  raises \<^verbatim>\<open>IndexError\<close>.
\<close>

definition item :: "'a list \<Rightarrow> int \<Rightarrow> error + 'a" where
  "item xs i =
     (if 0 \<le> i \<and> i < int (length xs) then Inr (xs ! nat i)
      else if i < 0 \<and> - i \<le> int (length xs) then Inr (xs ! nat (int (length xs) + i))
      else Inl IndexError)"

text \<open>
  \<^verbatim>\<open>s[a:b]\<close> with literal bounds \<open>0 \<le> a \<le> b\<close>: the characters at positions
  \<open>a, \<dots>, b - 1\<close> that exist. A slice never raises; past the end it is shorter or empty.
\<close>

definition slice :: "string \<Rightarrow> nat \<Rightarrow> nat \<Rightarrow> string" where
  "slice s a b = take (b - a) (drop a s)"

text \<open>\<^verbatim>\<open>file.split('/')[-1].split(sep)[i]\<close>, the shape every extraction of the notebook has.\<close>

definition token :: "char \<Rightarrow> int \<Rightarrow> string \<Rightarrow> error + string" where
  "token sep i file =
     (case item (str_split CHR ''/'' file) (- 1) of
        Inl e \<Rightarrow> Inl e
      | Inr name \<Rightarrow> item (str_split sep name) i)"

text \<open>ABI: \<^verbatim>\<open>file.split('/')[-1].split('_')[3][8:12]\<close>.\<close>

definition start_time_abi :: "string \<Rightarrow> error + string" where
  "start_time_abi file =
     (case token CHR ''_'' 3 file of Inl e \<Rightarrow> Inl e | Inr tok \<Rightarrow> Inr (slice tok 8 12))"

text \<open>ABI: \<^verbatim>\<open>file.split('/')[-1].split('-')[2]\<close>.\<close>

definition product_name_abi :: "string \<Rightarrow> error + string" where
  "product_name_abi file = token CHR ''-'' 2 file"

text \<open>NUCAPS: \<^verbatim>\<open>file.split('/')[-1].split('_')[3][9:16]\<close>.\<close>

definition start_time_nucaps :: "string \<Rightarrow> error + string" where
  "start_time_nucaps file =
     (case token CHR ''_'' 3 file of Inl e \<Rightarrow> Inl e | Inr tok \<Rightarrow> Inr (slice tok 9 16))"

text \<open>VIIRS AF: \<^verbatim>\<open>file.split('/')[-1].split('_')[3][9:13]\<close>.\<close>

definition start_time_viirs :: "string \<Rightarrow> error + string" where
  "start_time_viirs file =
     (case token CHR ''_'' 3 file of Inl e \<Rightarrow> Inl e | Inr tok \<Rightarrow> Inr (slice tok 9 13))"

section \<open>Match Selector: the list comprehensions\<close>

text \<open>
  Python compares strings lexicographically, character by character by code point; a
  proper prefix is smaller.
\<close>

fun str_le :: "string \<Rightarrow> string \<Rightarrow> bool" where
  "str_le [] ys = True"
| "str_le (x # xs) [] = False"
| "str_le (x # xs) (y # ys) =
     ((of_char x :: nat) < of_char y \<or> (x = y \<and> str_le xs ys))"

definition str_ge :: "string \<Rightarrow> string \<Rightarrow> bool" where
  "str_ge a b = str_le b a"

text \<open>
  \<^verbatim>\<open>[file for file in files if cond(file)]\<close>: the elements are visited in order, and
  the first condition that raises ends the whole comprehension with its exception.
\<close>

fun comprehension :: "('a \<Rightarrow> error + bool) \<Rightarrow> 'a list \<Rightarrow> error + 'a list" where
  "comprehension cond [] = Inr []"
| "comprehension cond (file # files) =
     (case cond file of
        Inl e \<Rightarrow> Inl e
      | Inr keep \<Rightarrow>
          (case comprehension cond files of
             Inl e \<Rightarrow> Inl e
           | Inr rest \<Rightarrow> Inr (if keep then file # rest else rest)))"

text \<open>
  The ABI condition, \<^verbatim>\<open>start == observation_time and product == product_name\<close>:
  \<^verbatim>\<open>and\<close> evaluates its right operand only when the left one is true.
\<close>

definition cond_abi :: "string \<Rightarrow> string \<Rightarrow> string \<Rightarrow> error + bool" where
  "cond_abi observation_time product_name file =
     (case start_time_abi file of
        Inl e \<Rightarrow> Inl e
      | Inr t \<Rightarrow>
          if t = observation_time
          then (case product_name_abi file of
                  Inl e \<Rightarrow> Inl e
                | Inr p \<Rightarrow> Inr (p = product_name))
          else Inr False)"

definition matches_abi :: "string list \<Rightarrow> string \<Rightarrow> string \<Rightarrow> error + string list" where
  "matches_abi files observation_time product_name =
     comprehension (cond_abi observation_time product_name) files"

definition cond_nucaps :: "string \<Rightarrow> string \<Rightarrow> error + bool" where
  "cond_nucaps observation_time file =
     (case start_time_nucaps file of
        Inl e \<Rightarrow> Inl e
      | Inr t \<Rightarrow> Inr (t = observation_time))"

definition matches_nucaps :: "string list \<Rightarrow> string \<Rightarrow> error + string list" where
  "matches_nucaps files observation_time = comprehension (cond_nucaps observation_time) files"

text \<open>
  The VIIRS AF condition, \<^verbatim>\<open>start >= start_time and start <= end_time\<close>, with the
  extraction written out in both operands as the cell has it.
\<close>

definition cond_viirs :: "string \<Rightarrow> string \<Rightarrow> string \<Rightarrow> error + bool" where
  "cond_viirs start_time end_time file =
     (case start_time_viirs file of
        Inl e \<Rightarrow> Inl e
      | Inr t \<Rightarrow>
          if str_ge t start_time
          then (case start_time_viirs file of
                  Inl e \<Rightarrow> Inl e
                | Inr t' \<Rightarrow> Inr (str_le t' end_time))
          else Inr False)"

definition matches_viirs :: "string list \<Rightarrow> string \<Rightarrow> string \<Rightarrow> error + string list" where
  "matches_viirs files start_time end_time =
     comprehension (cond_viirs start_time end_time) files"

section \<open>Calendar Resolver: \<^verbatim>\<open>datetime.datetime(year, month, day).strftime('%j')\<close>\<close>

text \<open>
  The cell calls the standard library's \<^verbatim>\<open>datetime\<close>. Its constructor first takes
  year, month and day as C integers (32 bits) and raises \<^verbatim>\<open>OverflowError\<close> for an
  argument that does not fit; then it checks the fields and raises \<^verbatim>\<open>ValueError\<close>
  for a year outside \<^verbatim>\<open>MINYEAR..MAXYEAR\<close>, a month outside \<open>1..12\<close> or a day outside
  the month; \<^verbatim>\<open>%j\<close> prints the day of the year as three digits. The definitions
  follow the library's own helpers.
\<close>

definition MINYEAR :: int where
  "MINYEAR = 1"

definition MAXYEAR :: int where
  "MAXYEAR = 9999"

definition DAYS_IN_MONTH :: "int list" where
  "DAYS_IN_MONTH = [- 1, 31, 28, 31, 30, 31, 30, 31, 31, 30, 31, 30, 31]"

definition DAYS_BEFORE_MONTH :: "int list" where
  "DAYS_BEFORE_MONTH = [- 1, 0, 31, 59, 90, 120, 151, 181, 212, 243, 273, 304, 334]"

definition is_leap :: "int \<Rightarrow> bool" where
  "is_leap year = (year mod 4 = 0 \<and> (year mod 100 \<noteq> 0 \<or> year mod 400 = 0))"

definition days_in_month :: "int \<Rightarrow> int \<Rightarrow> int" where
  "days_in_month year month =
     (if month = 2 \<and> is_leap year then 29 else DAYS_IN_MONTH ! nat month)"

definition days_before_month :: "int \<Rightarrow> int \<Rightarrow> int" where
  "days_before_month year month =
     DAYS_BEFORE_MONTH ! nat month + (if month > 2 \<and> is_leap year then 1 else 0)"

definition c_int :: "int \<Rightarrow> error + int" where
  "c_int v = (if - 2147483648 \<le> v \<and> v \<le> 2147483647 then Inr v else Inl OverflowError)"

definition check_date_fields :: "int \<Rightarrow> int \<Rightarrow> int \<Rightarrow> error + (int \<times> int \<times> int)" where
  "check_date_fields year month day =
     (if \<not> (MINYEAR \<le> year \<and> year \<le> MAXYEAR) then Inl ValueError
      else if \<not> (1 \<le> month \<and> month \<le> 12) then Inl ValueError
      else if \<not> (1 \<le> day \<and> day \<le> days_in_month year month) then Inl ValueError
      else Inr (year, month, day))"

text \<open>\<^verbatim>\<open>datetime.datetime(year, month, day)\<close>: the arguments are converted, then checked.\<close>

definition datetime :: "int \<Rightarrow> int \<Rightarrow> int \<Rightarrow> error + (int \<times> int \<times> int)" where
  "datetime year month day =
     (case c_int year of
        Inl e \<Rightarrow> Inl e
      | Inr y \<Rightarrow>
          (case c_int month of
             Inl e \<Rightarrow> Inl e
           | Inr m \<Rightarrow>
               (case c_int day of
                  Inl e \<Rightarrow> Inl e
                | Inr d \<Rightarrow> check_date_fields y m d)))"

definition julian_day :: "int \<Rightarrow> int \<Rightarrow> int \<Rightarrow> error + string" where
  "julian_day year month day =
     (case datetime year month day of
        Inl e \<Rightarrow> Inl e
      | Inr (y, m, d) \<Rightarrow> Inr (zfill (str (days_before_month y m + d)) 3))"

section \<open>Single-object probe: \<^verbatim>\<open>requests.get\<close>, the status code and the size\<close>

text \<open>
  A response carries its status code, its headers (looked up by lower-case name) and
  its body. Two things are parameters: the origin, what \<^verbatim>\<open>requests.get\<close> gives for a
  URL, a response or the exception of a failed transport; and \<open>float_accepts\<close>, the
  texts that Python's \<^verbatim>\<open>float\<close> converts. The cells read \<^verbatim>\<open>response.status_code\<close>,
  print it, read \<^verbatim>\<open>response.headers['content-length']\<close>, which raises \<^verbatim>\<open>KeyError\<close>
  when the header is absent, and print \<^verbatim>\<open>round(float(file_size)/1.0E6, 2)\<close>, where
  \<^verbatim>\<open>float\<close> raises \<^verbatim>\<open>ValueError\<close> on a text it does not accept. The size is kept
  as the header's text; the arithmetic on the converted number is floating point, cannot
  raise, and is left out.
\<close>

record response =
  status_code :: int
  headers :: "string \<rightharpoonup> string"
  content :: string

definition probe ::
  "(string \<Rightarrow> error + response) \<Rightarrow> (string \<Rightarrow> bool) \<Rightarrow> string \<Rightarrow> string \<Rightarrow> error + (int \<times> string)" where
  "probe requests_get float_accepts url file_name =
     (case requests_get (url @ file_name) of
        Inl e \<Rightarrow> Inl e
      | Inr response \<Rightarrow>
          (case headers response ''content-length'' of
             None \<Rightarrow> Inl KeyError
           | Some file_size \<Rightarrow>
               if float_accepts file_size then Inr (status_code response, file_size)
               else Inl ValueError))"

section \<open>Notions of the specification\<close>

text \<open>
  The claims speak of ASCII digits, of the number a digit string denotes, of the
  Gregorian leap-year rule and of the day of the year. These are written here from
  the specification's words, to be compared with what the code computes.
\<close>

definition is_digit :: "char \<Rightarrow> bool" where
  "is_digit c = (c \<in> set ''0123456789'')"

definition digit_of :: "char \<Rightarrow> nat" where
  "digit_of c = of_char c - 48"

fun digits_value :: "string \<Rightarrow> nat" where
  "digits_value [] = 0"
| "digits_value (c # cs) = digit_of c * 10 ^ length cs + digits_value cs"

definition all_digits :: "string \<Rightarrow> bool" where
  "all_digits s = list_all is_digit s"

text \<open>
  A non-empty text of ASCII digits, the form a \<^verbatim>\<open>content-length\<close> header has. Python's
  \<^verbatim>\<open>float\<close> converts every such text and rejects the empty text and a text of
  letters such as \<open>abc\<close>; the examples of the probe use it where they need a
  concrete \<open>float_accepts\<close>.
\<close>

definition digit_text :: "string \<Rightarrow> bool" where
  "digit_text s = (s \<noteq> [] \<and> all_digits s)"

definition gregorian_leap :: "int \<Rightarrow> bool" where
  "gregorian_leap y = (4 dvd y \<and> (\<not> 100 dvd y \<or> 400 dvd y))"

definition gregorian_month_length :: "int \<Rightarrow> int \<Rightarrow> int" where
  "gregorian_month_length y m =
     (if m = 2 then (if gregorian_leap y then 29 else 28)
      else if m = 4 \<or> m = 6 \<or> m = 9 \<or> m = 11 then 30
      else 31)"

definition valid_date :: "int \<Rightarrow> int \<Rightarrow> int \<Rightarrow> bool" where
  "valid_date y m d = (1 \<le> m \<and> m \<le> 12 \<and> 1 \<le> d \<and> d \<le> gregorian_month_length y m)"

definition day_of_year :: "int \<Rightarrow> int \<Rightarrow> int \<Rightarrow> int" where
  "day_of_year y m d = (\<Sum>k \<leftarrow> [1..<nat m]. gregorian_month_length y (int k)) + d"

text \<open>
  The \<open>_\<close>-delimited tokens of a key's last path segment, the list the extractions
  index.
\<close>

definition name_tokens :: "string \<Rightarrow> string list" where
  "name_tokens file = str_split CHR ''_'' (last (str_split CHR ''/'' file))"

text \<open>The \<open>-\<close>-delimited tokens of the same segment, which the ABI product name indexes.\<close>

definition dash_tokens :: "string \<Rightarrow> string list" where
  "dash_tokens file = str_split CHR ''-'' (last (str_split CHR ''/'' file))"

text \<open>A C integer of 32 bits, the range the constructor of \<^verbatim>\<open>datetime\<close> converts.\<close>

definition fits_c_int :: "int \<Rightarrow> bool" where
  "fits_c_int v = (- 2147483648 \<le> v \<and> v \<le> 2147483647)"

section \<open>Decimal rendering and zero filling\<close>

lemma below_ten: "d < 10 \<Longrightarrow> d \<in> {0, 1, 2, 3, 4, 5, 6, 7, 8, 9 :: nat}"
  by auto

lemma digit_char_digit: "d < 10 \<Longrightarrow> is_digit (digit_char d)"
  by (drule below_ten) (auto simp: digit_char_def is_digit_def)

lemma digit_of_digit_char: "d < 10 \<Longrightarrow> digit_of (digit_char d) = d"
  by (drule below_ten) (auto simp: digit_char_def digit_of_def)

lemma is_digit_not_sign: "is_digit c \<Longrightarrow> c \<noteq> CHR ''+'' \<and> c \<noteq> CHR ''-''"
  by (auto simp: is_digit_def)

lemma digits_value_append:
  "digits_value (xs @ ys) = digits_value xs * 10 ^ length ys + digits_value ys"
  by (induction xs) (simp_all add: power_add algebra_simps)

lemma str_nat_all_digits: "all_digits (str_nat n)"
proof (induction n rule: str_nat.induct)
  case (1 n)
  show ?case
  proof (cases "n < 10")
    case True
    then show ?thesis
      by (simp add: str_nat.simps [of n] all_digits_def digit_char_digit)
  next
    case False
    with 1 show ?thesis
      by (simp add: str_nat.simps [of n] all_digits_def digit_char_digit)
  qed
qed

lemma digits_value_str_nat: "digits_value (str_nat n) = n"
proof (induction n rule: str_nat.induct)
  case (1 n)
  show ?case
  proof (cases "n < 10")
    case True
    then show ?thesis
      by (simp add: str_nat.simps [of n] digit_of_digit_char)
  next
    case False
    with 1 show ?thesis
      by (simp add: str_nat.simps [of n] digits_value_append digit_of_digit_char)
  qed
qed

lemma str_nat_starts_with_digit: "\<exists>c cs. str_nat n = c # cs \<and> is_digit c"
  using str_nat_all_digits [of n]
  by (cases "str_nat n") (simp_all add: str_nat.simps [of n] all_digits_def split: if_splits)

lemma zfill_str_nat:
  "zfill (str_nat n) w = replicate (nat (w - int (length (str_nat n)))) CHR ''0'' @ str_nat n"
proof -
  obtain c cs where s: "str_nat n = c # cs" and d: "is_digit c"
    using str_nat_starts_with_digit by blast
  show ?thesis
    using is_digit_not_sign [OF d] by (simp add: zfill_def s)
qed

lemma digits_value_zeros: "digits_value (replicate k CHR ''0'' @ s) = digits_value s"
  by (induction k) (simp_all add: digit_of_def)

lemma all_digits_zeros: "all_digits (replicate k CHR ''0'' @ s) = all_digits s"
  by (induction k) (simp_all add: all_digits_def is_digit_def)

lemma zfill_unchanged: "w \<le> int (length s) \<Longrightarrow> zfill s w = s"
  by (simp add: zfill_def)

lemma replicate_two: "replicate 2 x = [x, x]"
  by (simp add: numeral_2_eq_2)

lemmas render_simps =
  data_path_def files_path_def zfill_def str_def str_nat.simps digit_char_def replicate_two

section \<open>Python's string order\<close>

lemma digit_of_below_ten: "is_digit c \<Longrightarrow> digit_of c < 10"
  by (auto simp: is_digit_def digit_of_def)

lemma of_char_digit: "is_digit c \<Longrightarrow> (of_char c :: nat) = 48 + digit_of c"
  by (auto simp: is_digit_def digit_of_def)

lemma digit_order:
  "is_digit x \<Longrightarrow> is_digit y \<Longrightarrow> ((of_char x :: nat) < of_char y) = (digit_of x < digit_of y)"
  by (simp add: of_char_digit)

lemma digit_of_inject:
  assumes "is_digit x" "is_digit y"
  shows "(x = y) = (digit_of x = digit_of y)"
proof
  assume "digit_of x = digit_of y"
  with assms have "(of_char x :: nat) = of_char y"
    by (simp add: of_char_digit)
  then show "x = y" by simp
qed simp

lemma digits_value_bound: "all_digits s \<Longrightarrow> digits_value s < 10 ^ length s"
proof (induction s)
  case Nil
  then show ?case by simp
next
  case (Cons c cs)
  then have d: "digit_of c < 10" and v: "digits_value cs < 10 ^ length cs"
    by (simp_all add: all_digits_def digit_of_below_ten)
  define n :: nat where "n = 10 ^ length cs"
  from d have "digit_of c \<le> 9" by simp
  then have "digit_of c * n \<le> 9 * n" by (rule mult_le_mono1)
  moreover from v have "digits_value cs < n" by (simp add: n_def)
  ultimately have "digit_of c * n + digits_value cs < 10 * n" by linarith
  then show ?case by (simp add: n_def)
qed

lemma str_le_digits:
  "length a = length b \<Longrightarrow> all_digits a \<Longrightarrow> all_digits b \<Longrightarrow>
     str_le a b = (digits_value a \<le> digits_value b)"
proof (induction a b rule: list_induct2)
  case Nil
  then show ?case by simp
next
  case (Cons x xs y ys)
  then have dx: "is_digit x" and dy: "is_digit y"
    and ax: "all_digits xs" and ay: "all_digits ys"
    by (simp_all add: all_digits_def)
  from Cons ax ay have ih: "str_le xs ys = (digits_value xs \<le> digits_value ys)"
    by simp
  have bx: "digits_value xs < 10 ^ length ys"
    using digits_value_bound [OF ax] Cons.hyps by simp
  have by': "digits_value ys < 10 ^ length ys"
    using digits_value_bound [OF ay] by simp
  define n :: nat where "n = 10 ^ length ys"
  define p where "p = digit_of x"
  define q where "q = digit_of y"
  have lhs: "str_le (x # xs) (y # ys) = (p < q \<or> (p = q \<and> digits_value xs \<le> digits_value ys))"
    by (simp add: digit_order [OF dx dy] digit_of_inject [OF dx dy] ih p_def q_def)
  have rhs: "(digits_value (x # xs) \<le> digits_value (y # ys))
      = (p * n + digits_value xs \<le> q * n + digits_value ys)"
    using Cons.hyps by (simp add: n_def p_def q_def)
  have "(p * n + digits_value xs \<le> q * n + digits_value ys)
      = (p < q \<or> (p = q \<and> digits_value xs \<le> digits_value ys))"
  proof (cases "p < q")
    case True
    then have "Suc p \<le> q" by simp
    then have "Suc p * n \<le> q * n" by (rule mult_le_mono1)
    with bx True show ?thesis by (simp add: n_def)
  next
    case False
    show ?thesis
    proof (cases "p = q")
      case True
      then show ?thesis by simp
    next
      case neq: False
      with False have "Suc q \<le> p" by simp
      then have "Suc q * n \<le> p * n" by (rule mult_le_mono1)
      with by' False neq show ?thesis by (simp add: n_def)
    qed
  qed
  with lhs rhs show ?case by simp
qed

lemma str_le_trans: "str_le a b \<Longrightarrow> str_le b c \<Longrightarrow> str_le a c"
proof (induction a b arbitrary: c rule: str_le.induct)
  case (1 ys)
  then show ?case by simp
next
  case (2 x xs)
  then show ?case by simp
next
  case (3 x xs y ys)
  then show ?case
    by (cases c) (auto dest: less_trans)
qed

section \<open>Extraction and comprehension\<close>

lemma str_split_not_empty: "str_split sep s \<noteq> []"
  by (induction s) (simp_all split: list.splits)

lemma item_last: "xs \<noteq> [] \<Longrightarrow> item xs (- 1) = Inr (last xs)"
  by (cases xs rule: rev_cases) (simp_all add: item_def nat_add_distrib)

lemma item_nat: "item xs (int k) = (if k < length xs then Inr (xs ! k) else Inl IndexError)"
  by (simp add: item_def)

lemma token_last_segment:
  "token sep i file = item (str_split sep (last (str_split CHR ''/'' file))) i"
  by (simp add: token_def item_last str_split_not_empty)

lemma token_3:
  "token CHR ''_'' 3 file
     = (if 4 \<le> length (name_tokens file) then Inr (name_tokens file ! 3) else Inl IndexError)"
  using item_nat [of "name_tokens file" 3]
  by (simp add: token_last_segment name_tokens_def)

lemma start_time_abi_eq:
  "start_time_abi file
     = (if 4 \<le> length (name_tokens file) then Inr (take 4 (drop 8 (name_tokens file ! 3)))
        else Inl IndexError)"
  by (simp add: start_time_abi_def token_3 slice_def)

lemma start_time_viirs_eq:
  "start_time_viirs file
     = (if 4 \<le> length (name_tokens file) then Inr (take 4 (drop 9 (name_tokens file ! 3)))
        else Inl IndexError)"
  by (simp add: start_time_viirs_def token_3 slice_def)

lemma cond_viirs_eq:
  "cond_viirs lo hi file
     = (case start_time_viirs file of
          Inl e \<Rightarrow> Inl e
        | Inr t \<Rightarrow> Inr (str_ge t lo \<and> str_le t hi))"
  by (simp add: cond_viirs_def split: sum.splits)

lemma comprehension_filter:
  "(\<forall>file \<in> set files. cond file = Inr (p file)) \<Longrightarrow> comprehension cond files = Inr (filter p files)"
  by (induction files) simp_all

lemma comprehension_raises:
  "(\<forall>file \<in> set files. cond file = Inl e \<or> (\<exists>b. cond file = Inr b)) \<Longrightarrow>
   (\<exists>file \<in> set files. cond file = Inl e) \<Longrightarrow> comprehension cond files = Inl e"
proof (induction files)
  case Nil
  then show ?case by simp
next
  case (Cons f fs)
  show ?case
  proof (cases "cond f")
    case (Inl e')
    with Cons.prems(1) show ?thesis by simp
  next
    case (Inr b)
    with Cons.prems have "\<exists>file \<in> set fs. cond file = Inl e" by auto
    with Cons have "comprehension cond fs = Inl e" by simp
    with Inr show ?thesis by simp
  qed
qed

lemma product_name_abi_eq:
  "product_name_abi file
     = (if 3 \<le> length (dash_tokens file) then Inr (dash_tokens file ! 2) else Inl IndexError)"
  using item_nat [of "dash_tokens file" 2]
  by (simp add: product_name_abi_def token_last_segment dash_tokens_def)

lemma start_time_nucaps_eq:
  "start_time_nucaps file
     = (if 4 \<le> length (name_tokens file) then Inr (take 7 (drop 9 (name_tokens file ! 3)))
        else Inl IndexError)"
  by (simp add: start_time_nucaps_def token_3 slice_def)

lemma cond_viirs_cases:
  "cond_viirs start_time end_time file
     = (if 4 \<le> length (name_tokens file)
        then Inr (str_ge (take 4 (drop 9 (name_tokens file ! 3))) start_time
                  \<and> str_le (take 4 (drop 9 (name_tokens file ! 3))) end_time)
        else Inl IndexError)"
  by (simp add: cond_viirs_eq start_time_viirs_eq)

lemma cond_nucaps_cases:
  "cond_nucaps observation_time file
     = (if 4 \<le> length (name_tokens file)
        then Inr (take 7 (drop 9 (name_tokens file ! 3)) = observation_time)
        else Inl IndexError)"
  by (simp add: cond_nucaps_def start_time_nucaps_eq)

lemma cond_abi_cases:
  "cond_abi observation_time product_name file
     = (if 4 \<le> length (name_tokens file)
          \<and> (take 4 (drop 8 (name_tokens file ! 3)) = observation_time \<longrightarrow>
               3 \<le> length (dash_tokens file))
        then Inr (take 4 (drop 8 (name_tokens file ! 3)) = observation_time
                  \<and> dash_tokens file ! 2 = product_name)
        else Inl IndexError)"
  by (simp add: cond_abi_def start_time_abi_eq product_name_abi_eq)

lemma comprehension_filter_or_raise:
  assumes "\<forall>file \<in> set files. cond file = (if ok file then Inr (p file) else Inl e)"
  shows "comprehension cond files
           = (if \<forall>file \<in> set files. ok file then Inr (filter p files) else Inl e)"
proof (cases "\<forall>file \<in> set files. ok file")
  case True
  with assms have "\<forall>file \<in> set files. cond file = Inr (p file)"
    by simp
  then have "comprehension cond files = Inr (filter p files)"
    by (rule comprehension_filter)
  with True show ?thesis by simp
next
  case False
  with assms have "\<exists>file \<in> set files. cond file = Inl e"
    by auto
  moreover from assms have "\<forall>file \<in> set files. cond file = Inl e \<or> (\<exists>b. cond file = Inr b)"
    by auto
  ultimately have "comprehension cond files = Inl e"
    by (rule comprehension_raises [rotated])
  with False show ?thesis by simp
qed

section \<open>Key Builder\<close>

text \<open>
  Claim C7. The key built from bucket \<open>noaa-goes16\<close>, product \<open>ABI-L2-MCMIPM\<close>,
  year 2022 (unpadded), ordinal day 336 (width 3) and hour 20 (width 2), joined by
  \<open>/\<close>, is exactly \<open>noaa-goes16/ABI-L2-MCMIPM/2022/336/20\<close>.
\<close>

theorem data_path_goes16_example:
  "data_path ''noaa-goes16'' ''ABI-L2-MCMIPM'' 2022 336 20 = ''noaa-goes16/ABI-L2-MCMIPM/2022/336/20''"
  by (simp add: render_simps)

text \<open>
  Claim C9. For every non-negative integer \<open>v\<close> and pad width \<open>w\<close>, the segment
  \<^verbatim>\<open>str(v).zfill(w)\<close> is the decimal rendering of \<open>v\<close> behind as many zeros as the
  width still asks for: its length is the larger of \<open>w\<close> and the rendering's length,
  it consists of digits, and these denote \<open>v\<close>. Nothing is cut off, and a value wider
  than its width stands in full, unpadded. The function is total: there is no error
  value it could return.
\<close>

theorem zfill_str_renders_in_full:
  assumes "0 \<le> v"
  shows "zfill (str v) w = replicate (nat (w - int (length (str v)))) CHR ''0'' @ str v
       \<and> int (length (zfill (str v) w)) = max w (int (length (str v)))
       \<and> all_digits (zfill (str v) w)
       \<and> int (digits_value (zfill (str v) w)) = v
       \<and> (w \<le> int (length (str v)) \<longrightarrow> zfill (str v) w = str v)"
proof -
  from assms have s: "str v = str_nat (nat v)"
    by (simp add: str_def)
  have z: "zfill (str v) w = replicate (nat (w - int (length (str v)))) CHR ''0'' @ str v"
    unfolding s by (rule zfill_str_nat)
  have l: "int (length (zfill (str v) w)) = max w (int (length (str v)))"
    unfolding z by simp
  have a: "all_digits (zfill (str v) w)"
    unfolding z all_digits_zeros unfolding s by (rule str_nat_all_digits)
  have p: "int (digits_value (zfill (str v) w)) = v"
    unfolding z digits_value_zeros unfolding s using assms by (simp add: digits_value_str_nat)
  from z l a p show ?thesis
    by (simp add: zfill_unchanged)
qed

theorem zfill_str_renders_in_full_witness:
  "zfill (str 336) 2 = ''336'' \<and> int (length (zfill (str 336) 2)) = 3
     \<and> digits_value (zfill (str 336) 2) = 336
     \<and> zfill (str 7) 3 = ''007'' \<and> digits_value (zfill (str 7) 3) = 7"
  using zfill_str_renders_in_full [of 336 2] zfill_str_renders_in_full [of 7 3]
  by (simp add: render_simps)

text \<open>
  Claim C2, as the specification states it, asks for an error when a value does not
  fit its pad width. The notebook has no such check: hour 336 in the two-digit hour
  segment gives a key with the segment \<open>336\<close>.
\<close>

theorem data_path_hour_336_counterexample:
  "data_path ''noaa-goes16'' ''ABI-L2-MCMIPM'' 2022 336 336 = ''noaa-goes16/ABI-L2-MCMIPM/2022/336/336''"
  by (simp add: render_simps)

text \<open>
  Claim C2, amended. The Key Builder returns a key for every integer value and pad
  width. A value whose decimal rendering is longer than the pad width is rendered in
  full, neither padded nor cut: in \<open>data_path\<close> an hour of more than two characters
  and in \<open>files_path\<close> a day of more than two characters end the key as they are.
\<close>

theorem key_builder_keeps_wide_value:
  "(w < int (length (str v)) \<longrightarrow> zfill (str v) w = str v)
   \<and> (2 < int (length (str hour)) \<longrightarrow>
        data_path bucket product year julian hour
          = bucket @ ''/'' @ product @ ''/'' @ str year @ ''/'' @ zfill (str julian) 3
              @ ''/'' @ str hour)
   \<and> (2 < int (length (str day)) \<longrightarrow>
        files_path bucket satellite sensor product year month day
          = bucket @ ''/'' @ satellite @ ''/'' @ sensor @ ''/'' @ product @ ''/'' @ str year
              @ ''/'' @ zfill (str month) 2 @ ''/'' @ str day)"
  by (simp add: zfill_unchanged data_path_def files_path_def)

theorem key_builder_keeps_wide_value_witness:
  "zfill (str 336) 2 = ''336''
   \<and> data_path ''b'' ''p'' 2022 336 336 = ''b/p/2022/336/336''
   \<and> files_path ''b'' ''s'' ''v'' ''p'' 2022 10 (- 16) = ''b/s/v/p/2022/10/-16''"
  using key_builder_keeps_wide_value
          [where w = 2 and v = 336 and hour = 336 and day = "- 16" and bucket = "''b''"
             and product = "''p''" and year = 2022 and julian = 336 and satellite = "''s''"
             and sensor = "''v''" and month = 10]
  by (simp add: render_simps)

section \<open>Filename Field Extractor\<close>

lemmas extract_simps =
  name_tokens_def start_time_abi_def start_time_viirs_def start_time_nucaps_def
  product_name_abi_def token_def item_def slice_def

text \<open>
  Claim C1, as the specification states it, asks for an error when the time token is
  shorter than the slice. A Python slice never raises: on a name whose fourth token
  has ten characters the cell's expression gives the two characters that exist.
\<close>

theorem start_time_abi_short_token_counterexample:
  "start_time_abi ''noaa-goes16/ABI-L2-MCMIPM/2022/336/20/OR_ABI-L2-MCMIPM2-M6_G16_s202233620'' = Inr ''20''"
  by (simp add: extract_simps)

text \<open>
  Claim C1, amended. On a key whose last path segment has fewer than four
  \<open>_\<close>-delimited tokens the ABI extraction fails with \<^verbatim>\<open>IndexError\<close>. On every
  other key it returns the characters at positions 8 to 11 of the fourth token, as
  many of them as exist, and never fails: a token shorter than 12 characters gives a
  shorter, possibly empty, string. When the fourth token begins \<open>s20223362030\<close>
  the result is \<open>2030\<close>.
\<close>

theorem start_time_abi_cases:
  "(length (name_tokens file) < 4 \<longrightarrow> start_time_abi file = Inl IndexError)
   \<and> (4 \<le> length (name_tokens file) \<longrightarrow>
        start_time_abi file = Inr (take 4 (drop 8 (name_tokens file ! 3))))
   \<and> (4 \<le> length (name_tokens file) \<and> take 12 (name_tokens file ! 3) = ''s20223362030'' \<longrightarrow>
        start_time_abi file = Inr ''2030'')"
proof -
  have "take 4 (drop 8 tok) = ''2030''" if "take 12 tok = ''s20223362030''" for tok :: string
  proof -
    have "take 4 (drop 8 tok) = take 4 (drop 8 (take 12 tok))"
      by (simp add: drop_take)
    with that show ?thesis by simp
  qed
  then show ?thesis
    by (simp add: start_time_abi_eq)
qed

lemma name_tokens_abi_full:
  "name_tokens ''noaa-goes16/ABI-L2-MCMIPM/2022/336/20/OR_ABI-L2-MCMIPM2-M6_G16_s20223362030251_e20223362030320_c20223362030394.nc''
     = [''OR'', ''ABI-L2-MCMIPM2-M6'', ''G16'', ''s20223362030251'', ''e20223362030320'',
        ''c20223362030394.nc'']"
  by (simp add: name_tokens_def)

lemma name_tokens_abi_three:
  "name_tokens ''noaa-goes16/ABI-L2-MCMIPM/2022/336/20/OR_ABI-L2-MCMIPM2-M6_G16''
     = [''OR'', ''ABI-L2-MCMIPM2-M6'', ''G16'']"
  by (simp add: name_tokens_def)

lemma name_tokens_abi_short:
  "name_tokens ''OR_ABI-L2-MCMIPM2-M6_G16_s2022336203''
     = [''OR'', ''ABI-L2-MCMIPM2-M6'', ''G16'', ''s2022336203'']"
  by (simp add: name_tokens_def)

theorem start_time_abi_cases_witness:
  "start_time_abi ''noaa-goes16/ABI-L2-MCMIPM/2022/336/20/OR_ABI-L2-MCMIPM2-M6_G16_s20223362030251_e20223362030320_c20223362030394.nc'' = Inr ''2030''
   \<and> start_time_abi ''noaa-goes16/ABI-L2-MCMIPM/2022/336/20/OR_ABI-L2-MCMIPM2-M6_G16'' = Inl IndexError
   \<and> start_time_abi ''OR_ABI-L2-MCMIPM2-M6_G16_s2022336203'' = Inr ''203''"
  using start_time_abi_cases [of "''noaa-goes16/ABI-L2-MCMIPM/2022/336/20/OR_ABI-L2-MCMIPM2-M6_G16_s20223362030251_e20223362030320_c20223362030394.nc''"]
    start_time_abi_cases [of "''noaa-goes16/ABI-L2-MCMIPM/2022/336/20/OR_ABI-L2-MCMIPM2-M6_G16''"]
    start_time_abi_cases [of "''OR_ABI-L2-MCMIPM2-M6_G16_s2022336203''"]
  by (simp add: name_tokens_abi_full name_tokens_abi_three name_tokens_abi_short)

section \<open>Match Selector\<close>

text \<open>
  Claim C3. For digit strings \<open>t\<close>, \<open>lo\<close>, \<open>hi\<close> of one length, the range test of the
  VIIRS cell, \<open>t >= lo and t <= hi\<close> in Python's string order, holds exactly when
  the numbers they denote satisfy \<open>lo \<le> t \<le> hi\<close>; so the condition of the cell
  decides the numeric range on every key whose extracted time is such a string.
\<close>

theorem range_match_lexicographic_is_numeric:
  assumes "length lo = length t" and "length hi = length t"
    and "all_digits t" and "all_digits lo" and "all_digits hi"
  shows "(str_ge t lo \<and> str_le t hi)
           = (digits_value lo \<le> digits_value t \<and> digits_value t \<le> digits_value hi)
       \<and> (start_time_viirs file = Inr t \<longrightarrow>
            cond_viirs lo hi file
              = Inr (digits_value lo \<le> digits_value t \<and> digits_value t \<le> digits_value hi))"
proof -
  from assms have "str_le lo t = (digits_value lo \<le> digits_value t)"
    by (simp add: str_le_digits)
  moreover from assms have "str_le t hi = (digits_value t \<le> digits_value hi)"
    by (simp add: str_le_digits)
  ultimately show ?thesis
    by (simp add: str_ge_def cond_viirs_eq)
qed

theorem range_match_lexicographic_is_numeric_witness:
  "str_ge ''2118'' ''2116'' \<and> str_le ''2118'' ''2119''
   \<and> digits_value ''2116'' \<le> digits_value ''2118'' \<and> digits_value ''2118'' \<le> digits_value ''2119''
   \<and> cond_viirs ''2116'' ''2119''
        ''AF-Iband_v1r0_j01_s202210162118048_e202210162119293_c202210162145443.nc'' = Inr True"
  using range_match_lexicographic_is_numeric
          [of "''2116''" "''2118''" "''2119''"
              "''AF-Iband_v1r0_j01_s202210162118048_e202210162119293_c202210162145443.nc''"]
  by (simp add: all_digits_def is_digit_def str_ge_def digit_of_def extract_simps)

text \<open>
  Claim C4, as stated, promises the matching subsequence, or the empty sequence, for
  every listing. The conditions of the notebook index the tokens of each key before
  they compare: on a listing that holds a key with fewer than four \<open>_\<close>-delimited
  tokens no element satisfies the ABI condition, and the selection raises.
\<close>

theorem match_selector_malformed_name_counterexample:
  "matches_abi [''noaa-goes16/ABI-L2-MCMIPM/2022/336/20/index.html''] ''2030'' ''MCMIPM2''
     = Inl IndexError"
  by (simp add: matches_abi_def cond_abi_def extract_simps)

text \<open>
  Claim C4, amended. On every listing whose keys all have the tokens the condition
  indexes, the Match Selector returns exactly the keys that satisfy the condition, in
  the order of the listing, and the empty list when none does; on every other listing
  it raises \<^verbatim>\<open>IndexError\<close> and returns nothing. The tokens indexed are four
  \<open>_\<close>-delimited tokens of the last path segment for the VIIRS range selection and
  the NUCAPS exact selection; the ABI exact selection needs these and, for a key whose
  start time matches, three \<open>-\<close>-delimited tokens as well. The same holds of the
  comprehension with any condition: where the condition gives a truth value on every
  element, the result is the filtered listing.
\<close>

theorem match_selector_filter_or_index_error:
  "matches_viirs files start_time end_time
     = (if \<forall>file \<in> set files. 4 \<le> length (name_tokens file)
        then Inr (filter (\<lambda>file. str_ge (take 4 (drop 9 (name_tokens file ! 3))) start_time
                            \<and> str_le (take 4 (drop 9 (name_tokens file ! 3))) end_time) files)
        else Inl IndexError)
   \<and> matches_abi files observation_time product_name
     = (if \<forall>file \<in> set files. 4 \<le> length (name_tokens file)
             \<and> (take 4 (drop 8 (name_tokens file ! 3)) = observation_time \<longrightarrow>
                  3 \<le> length (dash_tokens file))
        then Inr (filter (\<lambda>file. take 4 (drop 8 (name_tokens file ! 3)) = observation_time
                            \<and> dash_tokens file ! 2 = product_name) files)
        else Inl IndexError)
   \<and> matches_nucaps files observation_time
     = (if \<forall>file \<in> set files. 4 \<le> length (name_tokens file)
        then Inr (filter (\<lambda>file. take 7 (drop 9 (name_tokens file ! 3)) = observation_time)
                    files)
        else Inl IndexError)
   \<and> ((\<forall>file \<in> set files. cond file = Inr (p file)) \<longrightarrow>
        comprehension cond files = Inr (filter p files))
   \<and> ((\<forall>file \<in> set files. cond file = Inr False) \<longrightarrow> comprehension cond files = Inr [])"
proof -
  have viirs: "matches_viirs files start_time end_time
     = (if \<forall>file \<in> set files. 4 \<le> length (name_tokens file)
        then Inr (filter (\<lambda>file. str_ge (take 4 (drop 9 (name_tokens file ! 3))) start_time
                            \<and> str_le (take 4 (drop 9 (name_tokens file ! 3))) end_time) files)
        else Inl IndexError)"
    unfolding matches_viirs_def
    by (rule comprehension_filter_or_raise) (simp add: cond_viirs_cases)
  have abi: "matches_abi files observation_time product_name
     = (if \<forall>file \<in> set files. 4 \<le> length (name_tokens file)
             \<and> (take 4 (drop 8 (name_tokens file ! 3)) = observation_time \<longrightarrow>
                  3 \<le> length (dash_tokens file))
        then Inr (filter (\<lambda>file. take 4 (drop 8 (name_tokens file ! 3)) = observation_time
                            \<and> dash_tokens file ! 2 = product_name) files)
        else Inl IndexError)"
    unfolding matches_abi_def
    by (rule comprehension_filter_or_raise) (simp add: cond_abi_cases)
  have nucaps: "matches_nucaps files observation_time
     = (if \<forall>file \<in> set files. 4 \<le> length (name_tokens file)
        then Inr (filter (\<lambda>file. take 7 (drop 9 (name_tokens file ! 3)) = observation_time)
                    files)
        else Inl IndexError)"
    unfolding matches_nucaps_def
    by (rule comprehension_filter_or_raise) (simp add: cond_nucaps_cases)
  have none: "comprehension cond files = Inr []"
    if "\<forall>file \<in> set files. cond file = Inr False"
    using comprehension_filter [of files cond "\<lambda>_. False"] that by simp
  have some: "comprehension cond files = Inr (filter p files)"
    if "\<forall>file \<in> set files. cond file = Inr (p file)"
    using that by (rule comprehension_filter)
  from viirs abi nucaps none some show ?thesis
    by blast
qed

lemma name_tokens_viirs_2115:
  "name_tokens ''AF-Iband_v1r0_j01_s202210162115403_e202210162116048_c202210162145443.nc''
     = [''AF-Iband'', ''v1r0'', ''j01'', ''s202210162115403'', ''e202210162116048'', ''c202210162145443.nc'']"
  by (simp add: name_tokens_def)

lemma name_tokens_viirs_2116:
  "name_tokens ''AF-Iband_v1r0_j01_s202210162116403_e202210162117048_c202210162145443.nc''
     = [''AF-Iband'', ''v1r0'', ''j01'', ''s202210162116403'', ''e202210162117048'', ''c202210162145443.nc'']"
  by (simp add: name_tokens_def)

lemma name_tokens_viirs_2118:
  "name_tokens ''AF-Iband_v1r0_j01_s202210162118403_e202210162119048_c202210162145443.nc''
     = [''AF-Iband'', ''v1r0'', ''j01'', ''s202210162118403'', ''e202210162119048'', ''c202210162145443.nc'']"
  by (simp add: name_tokens_def)

lemma name_tokens_viirs_2120:
  "name_tokens ''AF-Iband_v1r0_j01_s202210162120403_e202210162121048_c202210162145443.nc''
     = [''AF-Iband'', ''v1r0'', ''j01'', ''s202210162120403'', ''e202210162121048'', ''c202210162145443.nc'']"
  by (simp add: name_tokens_def)

lemma name_tokens_abi_m1_2030:
  "name_tokens ''OR_ABI-L2-MCMIPM1-M6_G16_s20223362030251_e20223362030308_c20223362030384.nc''
     = [''OR'', ''ABI-L2-MCMIPM1-M6'', ''G16'', ''s20223362030251'', ''e20223362030308'', ''c20223362030384.nc'']"
  by (simp add: name_tokens_def)

lemma dash_tokens_abi_m1_2030:
  "dash_tokens ''OR_ABI-L2-MCMIPM1-M6_G16_s20223362030251_e20223362030308_c20223362030384.nc''
     = [''OR_ABI'', ''L2'', ''MCMIPM1'', ''M6_G16_s20223362030251_e20223362030308_c20223362030384.nc'']"
  by (simp add: dash_tokens_def)

lemma name_tokens_abi_m2_2030:
  "name_tokens ''OR_ABI-L2-MCMIPM2-M6_G16_s20223362030551_e20223362031008_c20223362031092.nc''
     = [''OR'', ''ABI-L2-MCMIPM2-M6'', ''G16'', ''s20223362030551'', ''e20223362031008'', ''c20223362031092.nc'']"
  by (simp add: name_tokens_def)

lemma dash_tokens_abi_m2_2030:
  "dash_tokens ''OR_ABI-L2-MCMIPM2-M6_G16_s20223362030551_e20223362031008_c20223362031092.nc''
     = [''OR_ABI'', ''L2'', ''MCMIPM2'', ''M6_G16_s20223362030551_e20223362031008_c20223362031092.nc'']"
  by (simp add: dash_tokens_def)

lemma name_tokens_abi_m2_2031:
  "name_tokens ''OR_ABI-L2-MCMIPM2-M6_G16_s20223362031551_e20223362032008_c20223362032085.nc''
     = [''OR'', ''ABI-L2-MCMIPM2-M6'', ''G16'', ''s20223362031551'', ''e20223362032008'', ''c20223362032085.nc'']"
  by (simp add: name_tokens_def)

lemma dash_tokens_abi_m2_2031:
  "dash_tokens ''OR_ABI-L2-MCMIPM2-M6_G16_s20223362031551_e20223362032008_c20223362032085.nc''
     = [''OR_ABI'', ''L2'', ''MCMIPM2'', ''M6_G16_s20223362031551_e20223362032008_c20223362032085.nc'']"
  by (simp add: dash_tokens_def)

lemma name_tokens_abi_no_dash:
  "name_tokens ''a_b_c_s20223362030251''
     = [''a'', ''b'', ''c'', ''s20223362030251'']"
  by (simp add: name_tokens_def)

lemma dash_tokens_abi_no_dash:
  "dash_tokens ''a_b_c_s20223362030251''
     = [''a_b_c_s20223362030251'']"
  by (simp add: dash_tokens_def)

theorem match_selector_filter_or_index_error_witness:
  "matches_viirs
     [''AF-Iband_v1r0_j01_s202210162115403_e202210162116048_c202210162145443.nc'',
      ''AF-Iband_v1r0_j01_s202210162116403_e202210162117048_c202210162145443.nc'',
      ''AF-Iband_v1r0_j01_s202210162118403_e202210162119048_c202210162145443.nc'',
      ''AF-Iband_v1r0_j01_s202210162120403_e202210162121048_c202210162145443.nc'']
     ''2116'' ''2119''
   = Inr [''AF-Iband_v1r0_j01_s202210162116403_e202210162117048_c202210162145443.nc'',
          ''AF-Iband_v1r0_j01_s202210162118403_e202210162119048_c202210162145443.nc'']
   \<and> matches_abi
     [''OR_ABI-L2-MCMIPM1-M6_G16_s20223362030251_e20223362030308_c20223362030384.nc'',
      ''OR_ABI-L2-MCMIPM2-M6_G16_s20223362030551_e20223362031008_c20223362031092.nc'',
      ''OR_ABI-L2-MCMIPM2-M6_G16_s20223362031551_e20223362032008_c20223362032085.nc'']
     ''2030'' ''MCMIPM2''
   = Inr [''OR_ABI-L2-MCMIPM2-M6_G16_s20223362030551_e20223362031008_c20223362031092.nc'']
   \<and> matches_abi
     [''OR_ABI-L2-MCMIPM1-M6_G16_s20223362030251_e20223362030308_c20223362030384.nc'']
     ''2045'' ''MCMIPM2'' = Inr []
   \<and> matches_abi
     [''OR_ABI-L2-MCMIPM1-M6_G16_s20223362030251_e20223362030308_c20223362030384.nc'',
      ''a_b_c_s20223362030251'']
     ''2030'' ''MCMIPM2'' = Inl IndexError"
  using match_selector_filter_or_index_error
      [where files = "[''AF-Iband_v1r0_j01_s202210162115403_e202210162116048_c202210162145443.nc'',
           ''AF-Iband_v1r0_j01_s202210162116403_e202210162117048_c202210162145443.nc'',
           ''AF-Iband_v1r0_j01_s202210162118403_e202210162119048_c202210162145443.nc'',
           ''AF-Iband_v1r0_j01_s202210162120403_e202210162121048_c202210162145443.nc'']"
         and start_time = "''2116''" and end_time = "''2119''"
         and observation_time = "''2030''" and product_name = "''MCMIPM2''"
         and cond = "\<lambda>file. Inr False" and p = "\<lambda>file. False"]
    match_selector_filter_or_index_error
      [where files = "[''OR_ABI-L2-MCMIPM1-M6_G16_s20223362030251_e20223362030308_c20223362030384.nc'',
           ''OR_ABI-L2-MCMIPM2-M6_G16_s20223362030551_e20223362031008_c20223362031092.nc'',
           ''OR_ABI-L2-MCMIPM2-M6_G16_s20223362031551_e20223362032008_c20223362032085.nc'']"
         and start_time = "''2116''" and end_time = "''2119''"
         and observation_time = "''2030''" and product_name = "''MCMIPM2''"
         and cond = "\<lambda>file. Inr False" and p = "\<lambda>file. False"]
    match_selector_filter_or_index_error
      [where files = "[''OR_ABI-L2-MCMIPM1-M6_G16_s20223362030251_e20223362030308_c20223362030384.nc'']"
         and start_time = "''2116''" and end_time = "''2119''"
         and observation_time = "''2045''" and product_name = "''MCMIPM2''"
         and cond = "\<lambda>file. Inr False" and p = "\<lambda>file. False"]
    match_selector_filter_or_index_error
      [where files = "[''OR_ABI-L2-MCMIPM1-M6_G16_s20223362030251_e20223362030308_c20223362030384.nc'',
           ''a_b_c_s20223362030251'']"
         and start_time = "''2116''" and end_time = "''2119''"
         and observation_time = "''2030''" and product_name = "''MCMIPM2''"
         and cond = "\<lambda>file. Inr False" and p = "\<lambda>file. False"]
  by (simp add: str_ge_def
        name_tokens_viirs_2115 name_tokens_viirs_2116 name_tokens_viirs_2118
        name_tokens_viirs_2120 name_tokens_abi_m1_2030 dash_tokens_abi_m1_2030
        name_tokens_abi_m2_2030 dash_tokens_abi_m2_2030 name_tokens_abi_m2_2031
        dash_tokens_abi_m2_2031 name_tokens_abi_no_dash dash_tokens_abi_no_dash)

text \<open>
  Claim C10, as stated, promises the empty sequence for every listing. A listing that
  holds a key with fewer than four \<open>_\<close>-delimited tokens makes the extraction raise
  before any bound is compared.
\<close>

theorem range_selector_malformed_name_counterexample:
  "matches_viirs [''noaa-jpss/NOAA20/VIIRS/NOAA20_VIIRS_AF_I-Band_EDR_NRT/2022/10/16/index.html''] ''2359'' ''0001''
     = Inl IndexError"
  by (simp add: matches_viirs_def cond_viirs_def extract_simps)

text \<open>
  Claim C10, amended. When \<open>start_time\<close> is greater than \<open>end_time\<close> in Python's
  string order, no time lies in the range, whatever the strings are: the VIIRS
  selection returns the empty list on every listing whose keys all have at least four
  \<open>_\<close>-delimited tokens in their last segment, and raises \<^verbatim>\<open>IndexError\<close> on every
  other listing. It never returns a match, so the range does not wrap.
\<close>

theorem range_selector_never_wraps:
  assumes "\<not> str_le start_time end_time"
  shows "matches_viirs files start_time end_time
           = (if \<forall>file \<in> set files. 4 \<le> length (name_tokens file) then Inr [] else Inl IndexError)"
proof -
  have none: "\<not> (str_ge t start_time \<and> str_le t end_time)" for t
    using assms str_le_trans [of start_time t end_time] by (auto simp: str_ge_def)
  have c: "cond_viirs start_time end_time f
             = (if 4 \<le> length (name_tokens f) then Inr False else Inl IndexError)" for f
    by (simp add: cond_viirs_eq start_time_viirs_eq none)
  show ?thesis
  proof (cases "\<forall>file \<in> set files. 4 \<le> length (name_tokens file)")
    case True
    then have "\<forall>file \<in> set files. cond_viirs start_time end_time file = Inr False"
      by (simp add: c)
    then have "comprehension (cond_viirs start_time end_time) files = Inr (filter (\<lambda>_. False) files)"
      by (rule comprehension_filter)
    with True show ?thesis by (simp add: matches_viirs_def)
  next
    case False
    then have "\<exists>file \<in> set files. cond_viirs start_time end_time file = Inl IndexError"
      by (auto simp: c)
    moreover have "\<forall>file \<in> set files. cond_viirs start_time end_time file = Inl IndexError
        \<or> (\<exists>b. cond_viirs start_time end_time file = Inr b)"
      by (auto simp: c)
    ultimately have "comprehension (cond_viirs start_time end_time) files = Inl IndexError"
      by (rule comprehension_raises [rotated])
    with False show ?thesis by (simp add: matches_viirs_def)
  qed
qed

theorem range_selector_never_wraps_witness:
  "\<not> str_le ''2359'' ''0001''
   \<and> matches_viirs
       [''AF-Iband_v1r0_j01_s202210162359403_e202210170001048_c202210170030443.nc'',
        ''AF-Iband_v1r0_j01_s202210160000403_e202210160001048_c202210160030443.nc'']
       ''2359'' ''0001'' = Inr []"
  using range_selector_never_wraps
      [of "''2359''" "''0001''"
          "[''AF-Iband_v1r0_j01_s202210162359403_e202210170001048_c202210170030443.nc'',
        ''AF-Iband_v1r0_j01_s202210160000403_e202210160001048_c202210160030443.nc'']"]
  by (simp add: name_tokens_def)

section \<open>Calendar Resolver\<close>

lemma is_leap_gregorian: "is_leap y = gregorian_leap y"
  by (simp add: is_leap_def gregorian_leap_def dvd_eq_mod_eq_0)

lemma month_cases:
  "1 \<le> m \<Longrightarrow> m \<le> 12 \<Longrightarrow> m \<in> {1, 2, 3, 4, 5, 6, 7, 8, 9, 10, 11, 12 :: int}"
  by (simp, arith)

lemma days_in_month_gregorian:
  "1 \<le> m \<Longrightarrow> m \<le> 12 \<Longrightarrow> days_in_month y m = gregorian_month_length y m"
  by (drule (1) month_cases)
     (auto simp: days_in_month_def gregorian_month_length_def DAYS_IN_MONTH_def is_leap_gregorian)

lemma days_before_month_sum:
  "1 \<le> m \<Longrightarrow> m \<le> 12 \<Longrightarrow>
     days_before_month y m = (\<Sum>k \<leftarrow> [1..<nat m]. gregorian_month_length y (int k))"
  by (drule (1) month_cases)
     (auto simp: days_before_month_def gregorian_month_length_def DAYS_BEFORE_MONTH_def
        is_leap_gregorian upt_rec)

lemma check_date_fields_eq:
  "check_date_fields y m d
     = (if 1 \<le> y \<and> y \<le> 9999 \<and> valid_date y m d then Inr (y, m, d) else Inl ValueError)"
  by (auto simp: check_date_fields_def valid_date_def MINYEAR_def MAXYEAR_def
        days_in_month_gregorian)

lemma datetime_eq:
  "datetime y m d
     = (if fits_c_int y \<and> fits_c_int m \<and> fits_c_int d then check_date_fields y m d
        else Inl OverflowError)"
  by (simp add: datetime_def c_int_def fits_c_int_def)

lemma valid_date_fits:
  assumes "1 \<le> y" and "y \<le> 9999" and "valid_date y m d"
  shows "fits_c_int y \<and> fits_c_int m \<and> fits_c_int d"
proof -
  have "gregorian_month_length y m \<le> 31"
    by (simp add: gregorian_month_length_def)
  with assms show ?thesis
    by (simp add: valid_date_def fits_c_int_def)
qed

lemma julian_day_eq:
  "julian_day y m d
     = (if 1 \<le> y \<and> y \<le> 9999 \<and> valid_date y m d
        then Inr (zfill (str (day_of_year y m d)) 3)
        else if fits_c_int y \<and> fits_c_int m \<and> fits_c_int d then Inl ValueError
        else Inl OverflowError)"
proof (cases "1 \<le> y \<and> y \<le> 9999 \<and> valid_date y m d")
  case True
  then have "fits_c_int y \<and> fits_c_int m \<and> fits_c_int d"
    using valid_date_fits [of y m d] by blast
  with True show ?thesis
    by (simp add: julian_day_def datetime_eq check_date_fields_eq day_of_year_def
          days_before_month_sum valid_date_def)
next
  case False
  then have "check_date_fields y m d = Inl ValueError"
    by (simp add: check_date_fields_eq)
  with False show ?thesis
    by (auto simp: julian_day_def datetime_eq)
qed

lemma days_before_month_bounds:
  "1 \<le> m \<Longrightarrow> m \<le> 12 \<Longrightarrow>
     0 \<le> days_before_month y m \<and> days_before_month y m + gregorian_month_length y m \<le> 366"
  by (drule (1) month_cases)
     (auto simp: days_before_month_def gregorian_month_length_def DAYS_BEFORE_MONTH_def)

lemma day_of_year_range:
  assumes "valid_date y m d"
  shows "1 \<le> day_of_year y m d \<and> day_of_year y m d \<le> 366"
proof -
  from assms have m: "1 \<le> m" "m \<le> 12" and d: "1 \<le> d" "d \<le> gregorian_month_length y m"
    by (simp_all add: valid_date_def)
  have "day_of_year y m d = days_before_month y m + d"
    by (simp add: day_of_year_def days_before_month_sum [OF m])
  with days_before_month_bounds [OF m, of y] d show ?thesis
    by linarith
qed

lemma str_nat_length: "n < 10 ^ k \<Longrightarrow> 0 < k \<Longrightarrow> length (str_nat n) \<le> k"
proof (induction n arbitrary: k rule: str_nat.induct)
  case (1 n)
  show ?case
  proof (cases "n < 10")
    case True
    with 1 show ?thesis by (simp add: str_nat.simps [of n])
  next
    case False
    with "1.prems" obtain j where k: "k = Suc j" and j: "0 < j"
      by (cases k; cases "k - 1") auto
    from "1.prems" k have "n div 10 < 10 ^ j"
      by (simp add: less_mult_imp_div_less mult.commute)
    with "1.IH" False j have "length (str_nat (n div 10)) \<le> j" by simp
    with False k show ?thesis by (simp add: str_nat.simps [of n])
  qed
qed


lemma ordinal_three_digits:
  assumes "1 \<le> n" and "n \<le> 366"
  shows "length (zfill (str n) 3) = 3" and "all_digits (zfill (str n) 3)"
    and "int (digits_value (zfill (str n) 3)) = n"
proof -
  from assms have s: "str n = str_nat (nat n)" by (simp add: str_def)
  from assms have "nat n < 10 ^ 3" by simp
  then have "length (str_nat (nat n)) \<le> 3" by (rule str_nat_length) simp
  then show "length (zfill (str n) 3) = 3"
    unfolding s zfill_str_nat by simp
  show "all_digits (zfill (str n) 3)"
    unfolding s zfill_str_nat all_digits_zeros by (rule str_nat_all_digits)
  show "int (digits_value (zfill (str n) 3)) = n"
    unfolding s zfill_str_nat digits_value_zeros using assms by (simp add: digits_value_str_nat)
qed

lemma day_of_year_jan_1: "day_of_year y 1 1 = 1"
  by (simp add: day_of_year_def)

lemma day_of_year_dec_31: "day_of_year y 12 31 = (if gregorian_leap y then 366 else 365)"
  by (simp add: day_of_year_def gregorian_month_length_def upt_rec)

lemmas calendar_simps =
  julian_day_eq valid_date_def gregorian_month_length_def gregorian_leap_def fits_c_int_def

text \<open>
  Claim C5, as stated, covers January 1 of any year. \<^verbatim>\<open>datetime\<close> has no year
  10000: the constructor raises for a year outside \<open>1..9999\<close>, though month and day
  are in range.
\<close>

theorem julian_day_year_10000_counterexample:
  "valid_date 10000 1 1 \<and> julian_day 10000 1 1 = Inl ValueError"
  by (simp add: calendar_simps)

text \<open>
  Claim C5, amended. For every date with a year from 1 to 9999 and month and day in
  range for that year, the Calendar Resolver returns a string of exactly three ASCII
  digits that denotes the day of the year, counted from 1 (the days of the months
  before, plus the day); the day of the year lies between 1 and 366. For January 1
  of such a year it is \<open>001\<close>, for December 31 it is \<open>366\<close> in a leap year and
  \<open>365\<close> otherwise.
\<close>

theorem julian_day_is_day_of_year:
  assumes "1 \<le> y" and "y \<le> 9999" and "valid_date y m d"
  shows "julian_day y m d = Inr (zfill (str (day_of_year y m d)) 3)
       \<and> length (zfill (str (day_of_year y m d)) 3) = 3
       \<and> all_digits (zfill (str (day_of_year y m d)) 3)
       \<and> int (digits_value (zfill (str (day_of_year y m d)) 3)) = day_of_year y m d
       \<and> 1 \<le> day_of_year y m d \<and> day_of_year y m d \<le> 366
       \<and> julian_day y 1 1 = Inr ''001''
       \<and> julian_day y 12 31 = Inr (if gregorian_leap y then ''366'' else ''365'')"
proof -
  from assms(3) have r: "1 \<le> day_of_year y m d \<and> day_of_year y m d \<le> 366"
    by (rule day_of_year_range)
  then have three: "length (zfill (str (day_of_year y m d)) 3) = 3"
    "all_digits (zfill (str (day_of_year y m d)) 3)"
    "int (digits_value (zfill (str (day_of_year y m d)) 3)) = day_of_year y m d"
    by (simp_all add: ordinal_three_digits)
  from assms have j: "julian_day y m d = Inr (zfill (str (day_of_year y m d)) 3)"
    by (simp add: julian_day_eq)
  from assms have first: "julian_day y 1 1 = Inr ''001''"
    by (simp add: calendar_simps day_of_year_jan_1 render_simps)
  from assms have last: "julian_day y 12 31 = Inr (if gregorian_leap y then ''366'' else ''365'')"
    by (simp add: julian_day_eq valid_date_def gregorian_month_length_def day_of_year_dec_31
          render_simps)
  from r three j first last show ?thesis by simp
qed

theorem julian_day_is_day_of_year_witness:
  "julian_day 2022 12 2 = Inr ''336'' \<and> day_of_year 2022 12 2 = 336
   \<and> julian_day 2022 1 1 = Inr ''001'' \<and> julian_day 2022 12 31 = Inr ''365''
   \<and> julian_day 2024 12 31 = Inr ''366''"
  using julian_day_is_day_of_year [of 2022 12 2] julian_day_is_day_of_year [of 2024 12 31]
  by (simp add: valid_date_def gregorian_month_length_def gregorian_leap_def day_of_year_def
        upt_rec render_simps)

lemma julian_day_2023_02_29: "julian_day 2023 2 29 = Inl ValueError"
  by (simp add: calendar_simps)

lemma julian_day_2024_02_29: "julian_day 2024 2 29 = Inr ''060''"
  by (simp add: calendar_simps day_of_year_def upt_rec render_simps)

text \<open>
  Claim C6, as stated, has the resolver fail exactly when month or day is out of
  range. February 29 of the leap year 10000 is in range, and the constructor raises
  for the year.
\<close>

theorem julian_day_leap_year_10000_counterexample:
  "valid_date 10000 2 29 \<and> julian_day 10000 2 29 = Inl ValueError"
  by (simp add: calendar_simps)

text \<open>
  Claim C6, amended. The Calendar Resolver fails exactly when the year lies outside
  \<open>1..9999\<close> or the month lies outside \<open>1..12\<close> or the day lies outside the month's
  length under the Gregorian leap-year rule. The failure is \<^verbatim>\<open>ValueError\<close> when year,
  month and day each fit a C integer, and \<^verbatim>\<open>OverflowError\<close> when one of them does not.
  It fails with \<^verbatim>\<open>ValueError\<close> for (2023, 2, 29) and returns \<open>060\<close> for (2024, 2, 29).
\<close>

theorem julian_day_fails_iff:
  "((\<exists>e. julian_day y m d = Inl e) = (\<not> (1 \<le> y \<and> y \<le> 9999 \<and> valid_date y m d)))
   \<and> ((julian_day y m d = Inl ValueError)
        = (\<not> (1 \<le> y \<and> y \<le> 9999 \<and> valid_date y m d)
           \<and> fits_c_int y \<and> fits_c_int m \<and> fits_c_int d))
   \<and> ((julian_day y m d = Inl OverflowError)
        = (\<not> (fits_c_int y \<and> fits_c_int m \<and> fits_c_int d)))
   \<and> julian_day 2023 2 29 = Inl ValueError
   \<and> julian_day 2024 2 29 = Inr ''060''"
proof -
  define ok where "ok \<longleftrightarrow> 1 \<le> y \<and> y \<le> 9999 \<and> valid_date y m d"
  define fit where "fit \<longleftrightarrow> fits_c_int y \<and> fits_c_int m \<and> fits_c_int d"
  have eq: "julian_day y m d
      = (if ok then Inr (zfill (str (day_of_year y m d)) 3)
         else if fit then Inl ValueError else Inl OverflowError)"
    unfolding ok_def fit_def by (rule julian_day_eq)
  have "fit" if "ok"
    using that valid_date_fits [of y m d] unfolding ok_def fit_def by blast
  then have "((\<exists>e. julian_day y m d = Inl e) = (\<not> ok))
      \<and> ((julian_day y m d = Inl ValueError) = (\<not> ok \<and> fit))
      \<and> ((julian_day y m d = Inl OverflowError) = (\<not> fit))"
    by (cases ok; cases fit; simp add: eq)
  then show ?thesis
    unfolding ok_def fit_def using julian_day_2023_02_29 julian_day_2024_02_29 by blast
qed

theorem julian_day_fails_iff_witness:
  "julian_day 2023 2 30 = Inl ValueError \<and> \<not> valid_date 2023 2 30
   \<and> julian_day 2022 13 1 = Inl ValueError \<and> \<not> valid_date 2022 13 1
   \<and> julian_day 0 1 1 = Inl ValueError
   \<and> julian_day 2147483648 1 1 = Inl OverflowError
   \<and> julian_day 2022 1 (- 2147483649) = Inl OverflowError
   \<and> (\<nexists>e. julian_day 2024 2 29 = Inl e) \<and> valid_date 2024 2 29"
  using julian_day_fails_iff [of 2023 2 30] julian_day_fails_iff [of 2022 13 1]
    julian_day_fails_iff [of 0 1 1] julian_day_fails_iff [of 2147483648 1 1]
    julian_day_fails_iff [of 2022 1 "- 2147483649"] julian_day_fails_iff [of 2024 2 29]
  by (simp add: valid_date_def gregorian_month_length_def gregorian_leap_def fits_c_int_def)

section \<open>Single-object probe\<close>

text \<open>
  Claim C8, as stated, has the probe tell an existing object from an absent one by
  the status code. The cells only print the status code; the size is read from the
  headers whatever the status, so a 404 response with a \<^verbatim>\<open>content-length\<close> header
  yields a size like any other. The header here is a text of digits, which
  \<^verbatim>\<open>float\<close> converts.
\<close>

theorem probe_status_404_counterexample:
  "probe
     (\<lambda>u. Inr \<lparr>status_code = 404, headers = [''content-length'' \<mapsto> ''196''],
                content = ''Not Found''\<rparr>)
     digit_text
     ''https://www.star.nesdis.noaa.gov/pub/smcd/VIIRS_Aerosol/viirs_aerosol_gridded_data/snpp/aod/eps/2022/''
     ''viirs_eps_npp_aod_0.100_deg_20220931.nc''
   = Inr (404, ''196'')"
  by (simp add: probe_def digit_text_def all_digits_def is_digit_def)

text \<open>
  Claim C8, amended. Given a URL, the probe returns a status code and a size exactly
  when the GET yields a response with that status code whose \<^verbatim>\<open>content-length\<close>
  header holds that size as a text \<^verbatim>\<open>float\<close> converts; the status code may be any,
  200 or not, and whether the probe succeeds does not depend on it. The probe fails
  with the exception of \<^verbatim>\<open>requests.get\<close> when the transport fails, with \<^verbatim>\<open>KeyError\<close>
  when the response has no such header, and with \<^verbatim>\<open>ValueError\<close> when \<^verbatim>\<open>float\<close>
  rejects the header's text. It has no \<open>NotFound\<close> outcome: what the status means is
  left to the caller who reads it.
\<close>

theorem probe_reports_any_status:
  "((probe requests_get float_accepts url file_name = Inr (c, n))
      = (\<exists>r. requests_get (url @ file_name) = Inr r \<and> status_code r = c
             \<and> headers r ''content-length'' = Some n \<and> float_accepts n))
   \<and> (requests_get (url @ file_name) = Inl e \<longrightarrow>
        probe requests_get float_accepts url file_name = Inl e)
   \<and> (requests_get (url @ file_name) = Inr r \<and> headers r ''content-length'' = None \<longrightarrow>
        probe requests_get float_accepts url file_name = Inl KeyError)
   \<and> (requests_get (url @ file_name) = Inr r \<and> headers r ''content-length'' = Some n
        \<and> \<not> float_accepts n \<longrightarrow>
        probe requests_get float_accepts url file_name = Inl ValueError)
   \<and> ((\<exists>h. probe (\<lambda>u. case requests_get u of
                          Inl x \<Rightarrow> Inl x
                        | Inr r \<Rightarrow> Inr (r\<lparr>status_code := other\<rparr>))
              float_accepts url file_name = Inr h)
        = (\<exists>h. probe requests_get float_accepts url file_name = Inr h))"
proof -
  have a: "(probe requests_get float_accepts url file_name = Inr (c, n))
      = (\<exists>r. requests_get (url @ file_name) = Inr r \<and> status_code r = c
             \<and> headers r ''content-length'' = Some n \<and> float_accepts n)"
    by (auto simp: probe_def split: sum.splits option.splits)
  have b: "(\<exists>h. probe (\<lambda>u. case requests_get u of
                          Inl x \<Rightarrow> Inl x
                        | Inr r \<Rightarrow> Inr (r\<lparr>status_code := other\<rparr>))
              float_accepts url file_name = Inr h)
        = (\<exists>h. probe requests_get float_accepts url file_name = Inr h)"
    by (auto simp: probe_def split: sum.splits option.splits)
  from a b show ?thesis
    by (simp add: probe_def)
qed

theorem probe_reports_any_status_witness:
  "probe
     (\<lambda>u. Inr \<lparr>status_code = 200, headers = [''content-length'' \<mapsto> ''47192348''],
                content = ''body''\<rparr>)
     digit_text ''https://host/2022/'' ''viirs_eps_npp_aod_0.100_deg_20220911.nc''
   = Inr (200, ''47192348'')
   \<and> probe
     (\<lambda>u. Inr \<lparr>status_code = 503, headers = [''content-length'' \<mapsto> ''0''], content = []\<rparr>)
     digit_text ''https://host/2022/'' ''viirs_eps_npp_aod_0.100_deg_20220911.nc''
   = Inr (503, ''0'')
   \<and> probe
     (\<lambda>u. Inr \<lparr>status_code = 200, headers = [''content-length'' \<mapsto> ''abc''], content = []\<rparr>)
     digit_text ''https://host/2022/'' ''viirs_eps_npp_aod_0.100_deg_20220911.nc''
   = Inl ValueError
   \<and> probe (\<lambda>u. Inr \<lparr>status_code = 404, headers = Map.empty, content = []\<rparr>)
     digit_text ''https://host/2022/'' ''viirs_eps_npp_aod_0.100_deg_20220911.nc''
   = Inl KeyError
   \<and> probe (\<lambda>u. Inl ConnectionError)
     digit_text ''https://host/2022/'' ''viirs_eps_npp_aod_0.100_deg_20220911.nc''
   = Inl ConnectionError"
  using probe_reports_any_status
      [where requests_get = "\<lambda>u. Inr \<lparr>status_code = 200,
                headers = [''content-length'' \<mapsto> ''47192348''], content = ''body''\<rparr>"
         and float_accepts = digit_text
         and url = "''https://host/2022/''"
         and file_name = "''viirs_eps_npp_aod_0.100_deg_20220911.nc''"
         and r = "\<lparr>status_code = 200,
                headers = [''content-length'' \<mapsto> ''47192348''], content = ''body''\<rparr>"
         and c = 200 and n = "''47192348''" and e = KeyError and other = 404]
    probe_reports_any_status
      [where requests_get = "\<lambda>u. Inr \<lparr>status_code = 503,
                headers = [''content-length'' \<mapsto> ''0''], content = []\<rparr>"
         and float_accepts = digit_text
         and url = "''https://host/2022/''"
         and file_name = "''viirs_eps_npp_aod_0.100_deg_20220911.nc''"
         and r = "\<lparr>status_code = 503,
                headers = [''content-length'' \<mapsto> ''0''], content = []\<rparr>"
         and c = 503 and n = "''0''" and e = KeyError and other = 200]
    probe_reports_any_status
      [where requests_get = "\<lambda>u. Inr \<lparr>status_code = 200,
                headers = [''content-length'' \<mapsto> ''abc''], content = []\<rparr>"
         and float_accepts = digit_text
         and url = "''https://host/2022/''"
         and file_name = "''viirs_eps_npp_aod_0.100_deg_20220911.nc''"
         and r = "\<lparr>status_code = 200,
                headers = [''content-length'' \<mapsto> ''abc''], content = []\<rparr>"
         and c = 200 and n = "''abc''" and e = KeyError and other = 404]
    probe_reports_any_status
      [where requests_get = "\<lambda>u. Inr \<lparr>status_code = 404, headers = Map.empty,
                content = []\<rparr>"
         and float_accepts = digit_text
         and url = "''https://host/2022/''"
         and file_name = "''viirs_eps_npp_aod_0.100_deg_20220911.nc''"
         and r = "\<lparr>status_code = 404, headers = Map.empty, content = []\<rparr>"
         and c = 404 and n = "''0''" and e = KeyError and other = 200]
    probe_reports_any_status
      [where requests_get = "\<lambda>u. Inl ConnectionError"
         and float_accepts = digit_text
         and url = "''https://host/2022/''"
         and file_name = "''viirs_eps_npp_aod_0.100_deg_20220911.nc''"
         and r = "\<lparr>status_code = 404, headers = Map.empty, content = []\<rparr>"
         and c = 404 and n = "''0''" and e = ConnectionError and other = 200]
  by (simp add: digit_text_def all_digits_def is_digit_def)

end
